theory Spec2Isabelle
  imports Complex_Main "HOL-Library.Word"
begin

unbundle bit_operations_syntax

section \<open>Go types and values\<close>

text \<open>
  The fragment of Go's runtime types (\<^verbatim>\<open>reflect.Type\<close>) that the package inspects.
  \<^item> \<open>Basic s\<close>: a predeclared non-interface type (\<^verbatim>\<open>bool\<close>, \<^verbatim>\<open>int\<close>, \<^verbatim>\<open>uint8\<close>,
    \<^verbatim>\<open>string\<close>, ...), whose \<^verbatim>\<open>String()\<close> and \<^verbatim>\<open>Name()\<close> are both \<open>s\<close>;
  \<^item> \<open>ErrorT\<close>: the predeclared interface \<^verbatim>\<open>error\<close>;
  \<^item> \<open>AnyT\<close>: the empty interface \<^verbatim>\<open>interface {}\<close>;
  \<^item> \<open>Defined p n i\<close>: the type \<open>n\<close> declared in package \<open>p\<close>; \<open>i\<close> says whether it is
    an interface type;
  \<^item> \<open>SliceT t\<close>, \<open>PtrT t\<close>: \<^verbatim>\<open>[]t\<close> and \<^verbatim>\<open>*t\<close>;
  \<^item> \<open>FuncT ps v rs\<close>: a function type with the fixed parameters \<open>ps\<close>, the element
    type \<open>v\<close> of its variadic parameter when it has one, and the results \<open>rs\<close>.
\<close>

datatype gotype =
    Basic string
  | ErrorT
  | AnyT
  | Defined string string bool
  | SliceT gotype
  | PtrT gotype
  | FuncT "gotype list" "gotype option" "gotype list"

text \<open>\<^verbatim>\<open>strings.Join\<close>.\<close>

fun join :: "string \<Rightarrow> string list \<Rightarrow> string" where
  "join sep [] = []"
| "join sep [x] = x"
| "join sep (x # y # ys) = x @ sep @ join sep (y # ys)"

text \<open>\<^verbatim>\<open>reflect.Type.String()\<close>, as the reflect package prints these types.\<close>

fun type_String :: "gotype \<Rightarrow> string" where
  "type_String (Basic s) = s"
| "type_String ErrorT = ''error''"
| "type_String AnyT = ''interface {}''"
| "type_String (Defined p n i) = p @ ''.'' @ n"
| "type_String (SliceT t) = ''[]'' @ type_String t"
| "type_String (PtrT t) = ''*'' @ type_String t"
| "type_String (FuncT ps v rs) =
     ''func('' @
     join '', '' (map type_String ps @
                  (case v of None \<Rightarrow> [] | Some e \<Rightarrow> [''...'' @ type_String e])) @
     '')'' @
     (case rs of
        [] \<Rightarrow> []
      | [r] \<Rightarrow> '' '' @ type_String r
      | _ \<Rightarrow> '' ('' @ join '', '' (map type_String rs) @ '')'')"

text \<open>\<^verbatim>\<open>reflect.Type.Name()\<close>: the name of a named type, empty for the others.\<close>

fun type_Name :: "gotype \<Rightarrow> string" where
  "type_Name (Basic s) = s"
| "type_Name ErrorT = ''error''"
| "type_Name (Defined p n i) = n"
| "type_Name _ = []"

text \<open>\<^verbatim>\<open>t.Kind() == reflect.Interface\<close> and \<^verbatim>\<open>t.Kind() == reflect.Func\<close>.\<close>

fun is_Interface :: "gotype \<Rightarrow> bool" where
  "is_Interface ErrorT = True"
| "is_Interface AnyT = True"
| "is_Interface (Defined p n i) = i"
| "is_Interface _ = False"

fun is_Func :: "gotype \<Rightarrow> bool" where
  "is_Func (FuncT ps v rs) = True"
| "is_Func _ = False"

text \<open>
  \<^verbatim>\<open>NumIn\<close>, \<^verbatim>\<open>In(i)\<close>, \<^verbatim>\<open>IsVariadic\<close>, \<^verbatim>\<open>NumOut\<close> and \<^verbatim>\<open>Out(i)\<close> of a function type. The variadic
  parameter is the last one and has the slice type of its element type. \<^verbatim>\<open>In\<close> and
  \<^verbatim>\<open>Out\<close> panic on an index out of range: \<open>None\<close>.
\<close>

fun params :: "gotype \<Rightarrow> gotype list" where
  "params (FuncT ps v rs) = ps @ (case v of None \<Rightarrow> [] | Some e \<Rightarrow> [SliceT e])"
| "params _ = []"

fun IsVariadic :: "gotype \<Rightarrow> bool" where
  "IsVariadic (FuncT ps v rs) = (v \<noteq> None)"
| "IsVariadic _ = False"

fun results :: "gotype \<Rightarrow> gotype list" where
  "results (FuncT ps v rs) = rs"
| "results _ = []"

definition NumIn :: "gotype \<Rightarrow> int" where
  "NumIn t = int (length (params t))"

definition NumOut :: "gotype \<Rightarrow> int" where
  "NumOut t = int (length (results t))"

definition index :: "'a list \<Rightarrow> int \<Rightarrow> 'a option" where
  "index xs i = (if 0 \<le> i \<and> i < int (length xs) then Some (xs ! nat i) else None)"

definition In :: "gotype \<Rightarrow> int \<Rightarrow> gotype option" where
  "In t i = index (params t) i"

definition Out :: "gotype \<Rightarrow> int \<Rightarrow> gotype option" where
  "Out t i = index (results t) i"

text \<open>\<^verbatim>\<open>reflect.Type.Elem()\<close> panics on a type that has no element type: \<open>None\<close>.\<close>

fun Elem :: "gotype \<Rightarrow> gotype option" where
  "Elem (SliceT t) = Some t"
| "Elem (PtrT t) = Some t"
| "Elem _ = None"

text \<open>
  Go values held in an \<^verbatim>\<open>interface{}\<close>. Integers have their width; a float is kept
  by the number it stands for, so that widening \<^verbatim>\<open>float32\<close> to \<^verbatim>\<open>float64\<close> keeps the
  payload. \<open>VFunc\<close>, \<open>VObj\<close> and \<open>VSlice\<close> are values of a function type, of a defined
  non-interface type and of a slice type, told apart by an identity; a value's dynamic
  type is never an interface type.

  Errors are the values of the two packages' error types. The four sentinels of
  package key are variables compared by identity, so they are constructors of their
  own, distinct from every other \<^verbatim>\<open>errors.New\<close> value (\<open>ErrorString\<close>).
  \<open>FuncTypeError\<close> is \<^verbatim>\<open>*twikutil.TypeError{Name, Fn, Got, Want}\<close>; \<open>KeyTypeError\<close> is
  \<^verbatim>\<open>*key.TypeError{Name, Got, Wants}\<close>, whose \<^verbatim>\<open>Got\<close> is a \<^verbatim>\<open>reflect.Type\<close> that may be
  nil; \<open>ImplementsError\<close> is the struct value that \<^verbatim>\<open>chkType\<close> returns and
  \<open>ImplementsErrorPtr\<close> a pointer to one. \<open>HostError p n i\<close> is an \<^verbatim>\<open>error\<close> that holds
  the value \<open>VObj p n i\<close>, of a type of the host program that implements \<^verbatim>\<open>error\<close>.
\<close>

datatype "value" =
    VNil
  | VBool bool
  | VInt "64 word"
  | VInt16 "16 word"
  | VInt32 "32 word"
  | VInt64 "64 word"
  | VFloat32 rat
  | VFloat64 rat
  | VString string
  | VError err
  | VFunc "gotype list" "gotype option" "gotype list" nat
  | VObj string string nat
  | VSlice gotype nat
and err =
    ErrorString string
  | ErrCatch
  | ErrKeyExists
  | ErrMissingValue
  | ErrNotTyper
  | RequiredError string
  | ImplementsError string "gotype option" string
  | ImplementsErrorPtr string "gotype option" string
  | KeyTypeError string "gotype option" string
  | FuncTypeError string "value" "value" "string list"
  | HostError string string nat

text \<open>The dynamic type of an error value.\<close>

fun err_type :: "err \<Rightarrow> gotype" where
  "err_type (RequiredError n) = PtrT (Defined ''key'' ''RequiredError'' False)"
| "err_type (ImplementsError n g w) = Defined ''key'' ''ImplementsError'' False"
| "err_type (ImplementsErrorPtr n g w) = PtrT (Defined ''key'' ''ImplementsError'' False)"
| "err_type (KeyTypeError n g w) = PtrT (Defined ''key'' ''TypeError'' False)"
| "err_type (FuncTypeError n f g w) = PtrT (Defined ''twikutil'' ''TypeError'' False)"
| "err_type (HostError p n i) = Defined p n False"
| "err_type _ = PtrT (Defined ''errors'' ''errorString'' False)"

text \<open>\<^verbatim>\<open>reflect.TypeOf\<close>: nil for the nil interface.\<close>

fun TypeOf :: "value \<Rightarrow> gotype option" where
  "TypeOf VNil = None"
| "TypeOf (VBool b) = Some (Basic ''bool'')"
| "TypeOf (VInt i) = Some (Basic ''int'')"
| "TypeOf (VInt16 i) = Some (Basic ''int16'')"
| "TypeOf (VInt32 i) = Some (Basic ''int32'')"
| "TypeOf (VInt64 i) = Some (Basic ''int64'')"
| "TypeOf (VFloat32 x) = Some (Basic ''float32'')"
| "TypeOf (VFloat64 x) = Some (Basic ''float64'')"
| "TypeOf (VString s) = Some (Basic ''string'')"
| "TypeOf (VError e) = Some (err_type e)"
| "TypeOf (VFunc ps v rs n) = Some (FuncT ps v rs)"
| "TypeOf (VObj p n i) = Some (Defined p n False)"
| "TypeOf (VSlice t i) = Some (SliceT t)"

text \<open>
  A Go panic is a result of its own: every function that can panic returns
  \<open>Panicked\<close> with the reason, or \<open>Returned\<close> with what it returns.
\<close>

datatype 'a result = Panicked string | Returned 'a

section \<open>Signature formatting (twik.go)\<close>

definition typeName :: "gotype \<Rightarrow> string" where
  "typeName t =
     (let n = type_String t in
      if n = ''interface {}'' then ''{}''
      else if n = ''[]interface {}'' then ''[]{}''
      else if n = ''[]uint8'' then ''[]byte''
      else n)"

text \<open>\<^verbatim>\<open>strings.Replace(s, old, new, 1)\<close>: the first occurrence of \<open>old\<close> is replaced.\<close>

fun replace_first :: "string \<Rightarrow> string \<Rightarrow> string \<Rightarrow> string" where
  "replace_first old new [] = (if old = [] then new else [])"
| "replace_first old new (c # cs) =
     (if take (length old) (c # cs) = old then new @ drop (length old) (c # cs)
      else c # replace_first old new cs)"

definition variadicName :: "gotype \<Rightarrow> string" where
  "variadicName t =
     (let n = replace_first ''[]'' [] (type_String t);
          n = (if n = ''interface {}'' then ''{}''
               else if n = ''[]uint8'' then ''[]byte''
               else n)
      in ''...'' @ n)"

text \<open>
  The parameter loop of \<^verbatim>\<open>Format\<close>: every parameter but the last is followed by
  \<^verbatim>\<open>" -> "\<close>, the last one (printed as a variadic when the function is one) by
  \<^verbatim>\<open>" => "\<close>; with no parameter nothing is written.
\<close>

fun format_params :: "bool \<Rightarrow> gotype list \<Rightarrow> string" where
  "format_params var [] = []"
| "format_params var [it] = (if var then variadicName it else typeName it) @ '' => ''"
| "format_params var (it # its) = typeName it @ '' -> '' @ format_params var its"

text \<open>The closure \<^verbatim>\<open>invalidRetval\<close>: all result types, separated by \<^verbatim>\<open>" -> "\<close>.\<close>

definition invalidRetval :: "gotype list \<Rightarrow> string" where
  "invalidRetval outs = join '' -> '' (map typeName outs)"

definition format_results :: "gotype list \<Rightarrow> string" where
  "format_results outs =
     (case outs of
        [] \<Rightarrow> ''()''
      | [o0] \<Rightarrow> (if type_Name o0 = ''error'' then ''()'' else typeName o0)
      | [o0, o1] \<Rightarrow>
          (if type_Name o0 = ''error'' then invalidRetval outs
           else if type_Name o1 \<noteq> ''error'' then invalidRetval outs
           else typeName o0)
      | _ \<Rightarrow> invalidRetval outs)"

text \<open>
  \<^verbatim>\<open>Format(name, v)\<close>. With a nil \<open>v\<close>, \<^verbatim>\<open>reflect.TypeOf(v)\<close> is nil and \<^verbatim>\<open>t.Kind()\<close>
  panics.
\<close>

definition Format_type :: "string \<Rightarrow> gotype \<Rightarrow> string" where
  "Format_type name t =
     (if \<not> is_Func t then name @ '' : '' @ typeName t
      else name @ '' :: '' @ format_params (IsVariadic t) (params t) @
           format_results (results t))"

definition Format :: "string \<Rightarrow> value \<Rightarrow> string result" where
  "Format name v =
     (case TypeOf v of
        None \<Rightarrow> Panicked ''runtime error: invalid memory address or nil pointer dereference''
      | Some t \<Rightarrow> Returned (Format_type name t))"

section \<open>Function adapter (twik.go)\<close>

text \<open>
  Whether a type implements an interface type (\<^verbatim>\<open>reflect.Type.Implements\<close>) is decided
  by the method sets of the host program's types. The relation is a parameter \<open>impl\<close>
  of everything that asks for it: \<open>impl t u\<close> says that \<open>t\<close> implements the interface
  type \<open>u\<close>.
\<close>

type_synonym implements = "gotype \<Rightarrow> gotype \<Rightarrow> bool"

text \<open>
  \<^verbatim>\<open>funcAccepts(ft, it)\<close>. \<open>it\<close> is \<^verbatim>\<open>reflect.TypeOf\<close> of an argument, nil for a nil
  argument; calling \<^verbatim>\<open>Implements\<close> on the nil \<^verbatim>\<open>reflect.Type\<close> panics.
\<close>

definition funcAccepts :: "implements \<Rightarrow> gotype \<Rightarrow> gotype option \<Rightarrow> bool result" where
  "funcAccepts impl ft it =
     (if is_Interface ft then
        (case it of
           None \<Rightarrow> Panicked ''runtime error: invalid memory address or nil pointer dereference''
         | Some t \<Rightarrow> Returned (impl t ft))
      else Returned (it = Some ft))"

text \<open>
  \<^verbatim>\<open>newParamError(name, v)\<close>:
  \<^verbatim>\<open>fmt.Errorf("Incorrect number of parameters to function %s.\n\n\t%s.", name, Format(name, v))\<close>.
\<close>

definition newParamError :: "string \<Rightarrow> value \<Rightarrow> err result" where
  "newParamError name v =
     (case Format name v of
        Panicked m \<Rightarrow> Panicked m
      | Returned sig \<Rightarrow>
          Returned (ErrorString (''Incorrect number of parameters to function '' @ name @
                                 ''.'' @ [CHR 0x0A, CHR 0x0A, CHR 0x09] @ sig @ ''.'')))"

text \<open>
  The type assertion \<^verbatim>\<open>v.(error)\<close>: the error that \<open>v\<close> holds when its dynamic type
  implements \<^verbatim>\<open>error\<close>, and \<open>None\<close> when the assertion fails. It holds of every error
  value, and of a value of a defined type of the host program when that type
  implements \<^verbatim>\<open>error\<close>. It fails on nil and on the values of the predeclared types, of
  function types and of slice types, which have no methods.
\<close>

definition as_error :: "implements \<Rightarrow> value \<Rightarrow> err option" where
  "as_error impl v =
     (case v of
        VError e \<Rightarrow> Some e
      | VObj p n i \<Rightarrow>
          if impl (Defined p n False) ErrorT then Some (HostError p n i) else None
      | _ \<Rightarrow> None)"

text \<open>
  The closures that \<^verbatim>\<open>funcReturn\<close> builds, one for each shape of the result list.
  \<open>vo\<close> is what \<^verbatim>\<open>reflect.Value.Call\<close> returned; \<^verbatim>\<open>vo[0]\<close> on an empty \<open>vo\<close> panics.
  The type assertion \<^verbatim>\<open>.(*TypeError)\<close> holds of \<open>FuncTypeError\<close>, on which \<^verbatim>\<open>setFn\<close> stores
  the name and the function.
\<close>

definition ret_none :: "value list \<Rightarrow> (value \<times> err option) result" where
  "ret_none vo = Returned (VNil, None)"

definition ret_value :: "value list \<Rightarrow> (value \<times> err option) result" where
  "ret_value vo =
     (case index vo 0 of
        None \<Rightarrow> Panicked ''runtime error: index out of range''
      | Some v0 \<Rightarrow> Returned (v0, None))"

definition ret_error ::
  "implements \<Rightarrow> string \<Rightarrow> value \<Rightarrow> value list \<Rightarrow> (value \<times> err option) result" where
  "ret_error impl name f vo =
     (case index vo 0 of
        None \<Rightarrow> Panicked ''runtime error: index out of range''
      | Some v0 \<Rightarrow>
          (case as_error impl v0 of
             Some e \<Rightarrow>
               (case e of
                  FuncTypeError n fn got want \<Rightarrow>
                    Returned (VNil, Some (FuncTypeError name f got want))
                | _ \<Rightarrow> Returned (VNil, Some e))
           | None \<Rightarrow> Returned (VNil, None)))"

text \<open>
  The closure for two results reads \<^verbatim>\<open>vo[0]\<close> twice: once for the value \<open>v\<close> and once
  for the type assertion \<^verbatim>\<open>.(error)\<close>. It never reads \<^verbatim>\<open>vo[1]\<close>.
\<close>

definition ret_pair ::
  "implements \<Rightarrow> string \<Rightarrow> value \<Rightarrow> value list \<Rightarrow> (value \<times> err option) result" where
  "ret_pair impl name f vo =
     (case index vo 0 of
        None \<Rightarrow> Panicked ''runtime error: index out of range''
      | Some v \<Rightarrow>
          (case as_error impl v of
             Some e \<Rightarrow>
               (case e of
                  FuncTypeError n fn got want \<Rightarrow>
                    Returned (VNil, Some (FuncTypeError name f got want))
                | _ \<Rightarrow> Returned (v, Some e))
           | None \<Rightarrow> Returned (v, None)))"

text \<open>
  \<^verbatim>\<open>funcReturn(name, f)\<close>: the choice is made once, on the declared results.
  \<^verbatim>\<open>NumOut\<close> panics on a nil type and on a type that is not a function type.
\<close>

definition funcReturn ::
  "implements \<Rightarrow> string \<Rightarrow> value \<Rightarrow>
   (value list \<Rightarrow> (value \<times> err option) result) result" where
  "funcReturn impl name f =
     (case TypeOf f of
        None \<Rightarrow> Panicked ''runtime error: invalid memory address or nil pointer dereference''
      | Some t \<Rightarrow>
          if \<not> is_Func t then Panicked ''reflect: NumOut of non-func type''
          else
            (case results t of
               [] \<Rightarrow> Returned ret_none
             | [o0] \<Rightarrow>
                 if type_Name o0 \<noteq> ''error'' then Returned ret_value
                 else Returned (ret_error impl name f)
             | [o0, o1] \<Rightarrow>
                 if type_Name o1 \<noteq> ''error''
                 then Panicked ''Func: second return value of f can only be an error''
                 else Returned (ret_pair impl name f)
             | _ \<Rightarrow> Panicked ''Func: f can only return at most two values''))"

text \<open>
  A \<^verbatim>\<open>for i := lo; i < hi; i++\<close> loop whose body may return: \<open>body i\<close> is \<open>Some r\<close>
  when the body returns \<open>r\<close> (or panics, which is a result too) and \<open>None\<close> when the
  loop goes on.
\<close>

function for_loop :: "(int \<Rightarrow> 'a option) \<Rightarrow> int \<Rightarrow> int \<Rightarrow> 'a option" where
  "for_loop body i hi =
     (if i < hi then
        (case body i of Some r \<Rightarrow> Some r | None \<Rightarrow> for_loop body (i + 1) hi)
      else None)"
  by pat_completeness auto
termination
  by (relation "measure (\<lambda>(body, i, hi). nat (hi - i))") auto

text \<open>
  The body of the loops over the fixed parameters, in \<^verbatim>\<open>funcStandard\<close> and in the first
  loop of \<^verbatim>\<open>funcVariadic\<close>: argument \<open>i\<close> is checked against \<^verbatim>\<open>t.In(i)\<close>, and the
  error names \<^verbatim>\<open>typeName(t.In(i))\<close>.
\<close>

definition check_fixed ::
  "implements \<Rightarrow> string \<Rightarrow> value \<Rightarrow> gotype \<Rightarrow> value list \<Rightarrow> int \<Rightarrow>
   (value \<times> err option) result option" where
  "check_fixed impl name f t args i =
     (case In t i of
        None \<Rightarrow> Some (Panicked ''runtime error: index out of range'')
      | Some ft \<Rightarrow>
          (case index args i of
             None \<Rightarrow> Some (Panicked ''runtime error: index out of range'')
           | Some a \<Rightarrow>
               (case funcAccepts impl ft (TypeOf a) of
                  Panicked m \<Rightarrow> Some (Panicked m)
                | Returned ok \<Rightarrow>
                    if \<not> ok then Some (Returned (VNil, Some (FuncTypeError name f a [typeName ft])))
                    else None)))"

text \<open>
  The body of the second loop of \<^verbatim>\<open>funcVariadic\<close>: argument \<open>i\<close> is checked against
  \<^verbatim>\<open>t.In(last).Elem()\<close>, and the error names \<^verbatim>\<open>typeName(t.In(i))\<close>, with the loop index
  \<open>i\<close>, where \<^verbatim>\<open>t.In(i)\<close> panics for an index that is no parameter's.
\<close>

definition check_variadic ::
  "implements \<Rightarrow> string \<Rightarrow> value \<Rightarrow> gotype \<Rightarrow> int \<Rightarrow> value list \<Rightarrow> int \<Rightarrow>
   (value \<times> err option) result option" where
  "check_variadic impl name f t last_in args i =
     (case In t last_in of
        None \<Rightarrow> Some (Panicked ''runtime error: index out of range'')
      | Some lt \<Rightarrow>
          (case Elem lt of
             None \<Rightarrow> Some (Panicked ''reflect: Elem of invalid type'')
           | Some et \<Rightarrow>
               (case index args i of
                  None \<Rightarrow> Some (Panicked ''runtime error: index out of range'')
                | Some a \<Rightarrow>
                    (case funcAccepts impl et (TypeOf a) of
                       Panicked m \<Rightarrow> Some (Panicked m)
                     | Returned ok \<Rightarrow>
                         if \<not> ok then
                           (case In t i of
                              None \<Rightarrow> Some (Panicked ''runtime error: index out of range'')
                            | Some it \<Rightarrow>
                                Some (Returned (VNil,
                                  Some (FuncTypeError name f a [typeName it]))))
                         else None))))"

text \<open>
  The host function behind \<open>f\<close>: \<^verbatim>\<open>reflect.ValueOf(f).Call(vi)\<close> runs it on the arguments
  in a state \<open>'w\<close> of the host program, which it may change, and gives its results.
  The wrapped function takes the argument list and the state, and gives what it
  returns (or its panic) and the state after it.
\<close>

type_synonym 'w hostcall = "value list \<Rightarrow> 'w \<Rightarrow> value list \<times> 'w"

type_synonym 'w wrapped = "value list \<Rightarrow> 'w \<Rightarrow> (value \<times> err option) result \<times> 'w"

definition call_and_return ::
  "(value list \<Rightarrow> (value \<times> err option) result) \<Rightarrow> 'w hostcall \<Rightarrow> 'w wrapped" where
  "call_and_return ret call args w = (case call args w of (vo, w') \<Rightarrow> (ret vo, w'))"

definition variadic_invoke ::
  "implements \<Rightarrow> string \<Rightarrow> value \<Rightarrow> gotype \<Rightarrow>
   (value list \<Rightarrow> (value \<times> err option) result) \<Rightarrow> 'w hostcall \<Rightarrow> 'w wrapped" where
  "variadic_invoke impl name f t ret call args w =
     (let last_in = NumIn t - 1; n = int (length args) in
      if n < last_in then
        (case newParamError name f of
           Panicked m \<Rightarrow> (Panicked m, w)
         | Returned e \<Rightarrow> (Returned (VNil, Some e), w))
      else
        (case for_loop (check_fixed impl name f t args) 0 last_in of
           Some r \<Rightarrow> (r, w)
         | None \<Rightarrow>
             (case for_loop (check_variadic impl name f t last_in args) last_in n of
                Some r \<Rightarrow> (r, w)
              | None \<Rightarrow> call_and_return ret call args w)))"

definition funcVariadic ::
  "implements \<Rightarrow> string \<Rightarrow> value \<Rightarrow> 'w hostcall \<Rightarrow> 'w wrapped result" where
  "funcVariadic impl name f call =
     (case funcReturn impl name f of
        Panicked m \<Rightarrow> Panicked m
      | Returned ret \<Rightarrow>
          (case TypeOf f of
             None \<Rightarrow> Panicked ''runtime error: invalid memory address or nil pointer dereference''
           | Some t \<Rightarrow> Returned (variadic_invoke impl name f t ret call)))"

definition standard_invoke ::
  "implements \<Rightarrow> string \<Rightarrow> value \<Rightarrow> gotype \<Rightarrow>
   (value list \<Rightarrow> (value \<times> err option) result) \<Rightarrow> 'w hostcall \<Rightarrow> 'w wrapped" where
  "standard_invoke impl name f t ret call args w =
     (let num_in = NumIn t in
      if int (length args) \<noteq> num_in then
        (case newParamError name f of
           Panicked m \<Rightarrow> (Panicked m, w)
         | Returned e \<Rightarrow> (Returned (VNil, Some e), w))
      else
        (case for_loop (check_fixed impl name f t args) 0 num_in of
           Some r \<Rightarrow> (r, w)
         | None \<Rightarrow> call_and_return ret call args w))"

definition funcStandard ::
  "implements \<Rightarrow> string \<Rightarrow> value \<Rightarrow> 'w hostcall \<Rightarrow> 'w wrapped result" where
  "funcStandard impl name f call =
     (case funcReturn impl name f of
        Panicked m \<Rightarrow> Panicked m
      | Returned ret \<Rightarrow>
          (case TypeOf f of
             None \<Rightarrow> Panicked ''runtime error: invalid memory address or nil pointer dereference''
           | Some t \<Rightarrow> Returned (standard_invoke impl name f t ret call)))"

text \<open>\<^verbatim>\<open>Func(name, f)\<close>.\<close>

definition Func_wrap :: "implements \<Rightarrow> string \<Rightarrow> value \<Rightarrow> 'w hostcall \<Rightarrow> 'w wrapped result" where
  "Func_wrap impl name f call =
     (case TypeOf f of
        None \<Rightarrow> Panicked ''runtime error: invalid memory address or nil pointer dereference''
      | Some t \<Rightarrow>
          if \<not> is_Func t then Panicked ''Func: f must be a function''
          else if IsVariadic t then funcVariadic impl name f call
          else funcStandard impl name f call)"

text \<open>
  Wrapping \<open>f\<close> and calling the wrapper once: a panic of the construction is the
  panic of the whole.
\<close>

definition wrap_and_invoke ::
  "implements \<Rightarrow> string \<Rightarrow> value \<Rightarrow> 'w hostcall \<Rightarrow> 'w wrapped" where
  "wrap_and_invoke impl name f call args w =
     (case Func_wrap impl name f call of
        Panicked m \<Rightarrow> (Panicked m, w)
      | Returned invoke \<Rightarrow> invoke args w)"

section \<open>Type descriptors and coercion (package key)\<close>

text \<open>
  \<^verbatim>\<open>NewTypeError(name, got, wants)\<close> takes two \<^verbatim>\<open>interface{}\<close> arguments and switches on
  whether each holds a \<^verbatim>\<open>reflect.Type\<close>. \<open>IType t\<close> is an interface holding the type
  \<open>t\<close>, \<open>IValue v\<close> one holding another value. A nil \<^verbatim>\<open>reflect.Type\<close> passed as an
  \<^verbatim>\<open>interface{}\<close> is the nil interface, which no case of a type switch but the default
  matches.
\<close>

datatype iface = IType gotype | IValue "value"

definition type_as_iface :: "gotype option \<Rightarrow> iface" where
  "type_as_iface t = (case t of None \<Rightarrow> IValue VNil | Some u \<Rightarrow> IType u)"

definition NewTypeError :: "string \<Rightarrow> iface \<Rightarrow> iface \<Rightarrow> err result" where
  "NewTypeError name got wants =
     (let g = (case got of IType t \<Rightarrow> Some t | IValue v \<Rightarrow> TypeOf v) in
      case wants of
        IType w \<Rightarrow> Returned (KeyTypeError name g (type_String w))
      | IValue v \<Rightarrow>
          (case v of
             VString w \<Rightarrow> Returned (KeyTypeError name g w)
           | _ \<Rightarrow>
               (case TypeOf v of
                  None \<Rightarrow> Panicked ''runtime error: invalid memory address or nil pointer dereference''
                | Some t \<Rightarrow> Returned (KeyTypeError name g (type_String t)))))"

text \<open>
  A \<^verbatim>\<open>TypeFunc\<close> returns a value and an error. \<^verbatim>\<open>typer.Coerce\<close> assigns both results of
  \<^verbatim>\<open>t.fn(v)\<close> with \<^verbatim>\<open>v, err := t.fn(v)\<close>: \<open>v\<close> is the method's parameter, declared in the
  same block, so the statement assigns to it and declares only \<open>err\<close>. From there on
  \<open>v\<close> is the value that \<open>fn\<close> returned, also in \<^verbatim>\<open>reflect.TypeOf(v)\<close>.
\<close>

type_synonym TypeFunc = "value \<Rightarrow> value \<times> err option"

definition typer_Coerce :: "string \<Rightarrow> TypeFunc \<Rightarrow> value \<Rightarrow> (value \<times> err option) result" where
  "typer_Coerce s fn v =
     (case fn v of
        (v', err) \<Rightarrow>
          if err = Some ErrCatch then
            (case NewTypeError [] (type_as_iface (TypeOf v')) (IValue (VString s)) of
               Panicked m \<Rightarrow> Panicked m
             | Returned e \<Rightarrow> Returned (v', Some e))
          else Returned (v', err))"

text \<open>
  What a Key holds as its \<^verbatim>\<open>typer\<close>, an \<^verbatim>\<open>interface{}\<close>: a \<^verbatim>\<open>reflect.Type\<close>, or a value
  that implements \<^verbatim>\<open>Typer\<close>, given by its \<^verbatim>\<open>String\<close> and \<^verbatim>\<open>Coerce\<close> methods, or anything
  else.
\<close>

datatype descriptor =
    TypeD gotype
  | TyperD string "value \<Rightarrow> (value \<times> err option) result"
  | OtherD

definition TyperFunc :: "string \<Rightarrow> TypeFunc \<Rightarrow> descriptor" where
  "TyperFunc ident f = TyperD ident (typer_Coerce ident f)"

fun IsTyper :: "descriptor \<Rightarrow> bool" where
  "IsTyper (TypeD t) = True"
| "IsTyper (TyperD s c) = True"
| "IsTyper OtherD = False"

text \<open>
  The two coercion rules of the package. \<^verbatim>\<open>int\<close> has 64 bits; \<^verbatim>\<open>int(t)\<close> extends the
  sign of a narrower integer.
\<close>

definition Float_fn :: TypeFunc where
  "Float_fn v =
     (case v of
        VFloat64 t \<Rightarrow> (VFloat64 t, None)
      | VFloat32 t \<Rightarrow> (VFloat64 t, None)
      | _ \<Rightarrow> (VNil, Some ErrCatch))"

definition Float :: descriptor where
  "Float = TyperFunc ''float'' Float_fn"

definition Integer_fn :: TypeFunc where
  "Integer_fn v =
     (case v of
        VInt t \<Rightarrow> (VInt t, None)
      | VInt64 t \<Rightarrow> (VInt t, None)
      | VInt32 t \<Rightarrow> (VInt (scast t), None)
      | VInt16 t \<Rightarrow> (VInt (scast t), None)
      | _ \<Rightarrow> (VNil, Some ErrCatch))"

definition Integer :: descriptor where
  "Integer = TyperFunc ''integer'' Integer_fn"

text \<open>
  The closure \<^verbatim>\<open>chkType\<close> of \<^verbatim>\<open>Check\<close>. For a nil \<open>v\<close>, \<^verbatim>\<open>reflect.TypeOf(v)\<close> is nil and
  \<^verbatim>\<open>vt.Implements(t)\<close> panics.
\<close>

definition chkType :: "implements \<Rightarrow> string \<Rightarrow> value \<Rightarrow> gotype \<Rightarrow> err option result" where
  "chkType impl name v t =
     (let vt = TypeOf v in
      if is_Interface t then
        (case vt of
           None \<Rightarrow> Panicked ''runtime error: invalid memory address or nil pointer dereference''
         | Some u \<Rightarrow>
             if \<not> impl u t then Returned (Some (ImplementsError name vt (type_String t)))
             else Returned None)
      else if vt \<noteq> Some t then
        (case NewTypeError name (type_as_iface vt) (IType t) of
           Panicked m \<Rightarrow> Panicked m
         | Returned e \<Rightarrow> Returned (Some e))
      else Returned None)"

text \<open>
  \<^verbatim>\<open>Check(name, typer, v)\<close>. The errors \<^verbatim>\<open>*TypeError\<close> and \<^verbatim>\<open>*ImplementsError\<close> of a
  \<^verbatim>\<open>Typer\<close> get the name when theirs is empty.
\<close>

definition Check ::
  "implements \<Rightarrow> string \<Rightarrow> descriptor \<Rightarrow> value \<Rightarrow> (value \<times> err option) result" where
  "Check impl name typer v =
     (case typer of
        TypeD t \<Rightarrow>
          (case chkType impl name v t of
             Panicked m \<Rightarrow> Panicked m
           | Returned e \<Rightarrow> Returned (v, e))
      | TyperD s coerce \<Rightarrow>
          (case coerce v of
             Panicked m \<Rightarrow> Panicked m
           | Returned (v', err) \<Rightarrow>
               (case err of
                  Some (KeyTypeError n g w) \<Rightarrow>
                    Returned (v', Some (KeyTypeError (if n = [] then name else n) g w))
                | Some (ImplementsErrorPtr n g w) \<Rightarrow>
                    Returned (v', Some (ImplementsErrorPtr (if n = [] then name else n) g w))
                | _ \<Rightarrow> Returned (v', err)))
      | OtherD \<Rightarrow> Returned (VNil, Some ErrNotTyper))"

section \<open>The binding environment (executer.go)\<close>

text \<open>
  Modelled from the spec: the scope of the script runtime (\<^verbatim>\<open>twik.Scope\<close>, an external
  package), by the interface the spec gives for the binding environment: \<^verbatim>\<open>get\<close>
  fails on a name that is not bound, \<^verbatim>\<open>set\<close> assigns to a bound name and fails on
  another, \<^verbatim>\<open>create\<close> binds a new name and fails if the name is already bound. The
  executer's scope is a root scope, so a scope is a finite map from names to values.
\<close>

type_synonym Scope = "string \<rightharpoonup> value"

definition scope_Get :: "Scope \<Rightarrow> string \<Rightarrow> value \<times> err option" where
  "scope_Get s key =
     (case s key of
        None \<Rightarrow> (VNil, Some (ErrorString (''undefined symbol: '' @ key)))
      | Some v \<Rightarrow> (v, None))"

definition scope_Set :: "Scope \<Rightarrow> string \<Rightarrow> value \<Rightarrow> err option \<times> Scope" where
  "scope_Set s key v =
     (case s key of
        None \<Rightarrow> (Some (ErrorString (''cannot set undefined symbol: '' @ key)), s)
      | Some old \<Rightarrow> (None, s(key \<mapsto> v)))"

definition scope_Create :: "Scope \<Rightarrow> string \<Rightarrow> value \<Rightarrow> err option \<times> Scope" where
  "scope_Create s key v =
     (case s key of
        None \<Rightarrow> (None, s(key \<mapsto> v))
      | Some old \<Rightarrow>
          (Some (ErrorString (''symbol already defined in current scope: '' @ key)), s))"

text \<open>
  The \<^verbatim>\<open>Executer\<close>: its scope and the names registered as functions (a
  \<^verbatim>\<open>map[string]bool\<close>, false for a name that is not in it).
\<close>

record Executer =
  scope :: Scope
  funcs :: "string \<Rightarrow> bool"

definition Executer_Set :: "Executer \<Rightarrow> string \<Rightarrow> value \<Rightarrow> err option \<times> Executer" where
  "Executer_Set e key v =
     (if funcs e key then (Some (ErrorString ''function with that name already exists''), e)
      else
        (case scope_Get (scope e) key of
           (old, None) \<Rightarrow>
             (case scope_Set (scope e) key v of (err, s') \<Rightarrow> (err, e\<lparr>scope := s'\<rparr>))
         | (old, Some err) \<Rightarrow>
             (case scope_Create (scope e) key v of (err', s') \<Rightarrow> (err', e\<lparr>scope := s'\<rparr>))))"

definition Executer_Get :: "Executer \<Rightarrow> string \<Rightarrow> value \<times> err option" where
  "Executer_Get e key =
     (if funcs e key then (VNil, Some (ErrorString ''functions cannot be gotten''))
      else scope_Get (scope e) key)"

definition Executer_Has :: "Executer \<Rightarrow> string \<Rightarrow> bool" where
  "Executer_Has e key =
     (if funcs e key then False
      else (case scope_Get (scope e) key of (v, err) \<Rightarrow> err = None \<and> v \<noteq> VNil))"

section \<open>Keys (package key)\<close>

type_synonym Mode = int

definition Reserved :: Mode where "Reserved = 0"
definition Read :: Mode where "Read = 1"
definition Write :: Mode where "Write = 2"
definition Required :: Mode where "Required = 4"
definition ReadWrite :: Mode where "ReadWrite = Read OR Write"

record Key =
  name :: string
  desc :: string
  mode :: Mode
  typer :: descriptor
  val :: "value"

definition Get :: "Key \<Rightarrow> value" where
  "Get k = val k"

definition SetMode :: "Key \<Rightarrow> Mode \<Rightarrow> Key" where
  "SetMode k m = k\<lparr>mode := m\<rparr>"

text \<open>
  \<^verbatim>\<open>Key.Set(v)\<close>: the error it returns and the Key after it. The Key is written in one
  place, after the check.
\<close>

definition Key_Set :: "implements \<Rightarrow> Key \<Rightarrow> value \<Rightarrow> (err option \<times> Key) result" where
  "Key_Set impl k v =
     (if v \<noteq> VNil then
        (case Check impl (name k) (typer k) v of
           Panicked m \<Rightarrow> Panicked m
         | Returned (v', err) \<Rightarrow>
             (case err of
                Some e \<Rightarrow> Returned (Some e, k)
              | None \<Rightarrow> Returned (None, k\<lparr>val := v'\<rparr>)))
      else Returned (None, k\<lparr>val := v\<rparr>))"

text \<open>
  \<^verbatim>\<open>New\<close> returns the Key together with the error of \<^verbatim>\<open>k.Set(def)\<close>: the Key is
  returned also when the default is refused, with no value stored.
\<close>

definition New ::
  "implements \<Rightarrow> string \<Rightarrow> descriptor \<Rightarrow> value \<Rightarrow> Mode \<Rightarrow> string \<Rightarrow>
   (Key option \<times> err option) result" where
  "New impl nm ty def m ds =
     (if \<not> IsTyper ty then Returned (None, Some ErrNotTyper)
      else
        (case Key_Set impl \<lparr>name = nm, desc = ds, mode = m, typer = ty, val = VNil\<rparr> def of
           Panicked x \<Rightarrow> Panicked x
         | Returned (err, k) \<Rightarrow> Returned (Some k, err)))"

text \<open>
  \<^verbatim>\<open>NewAuto\<close> stores \<^verbatim>\<open>reflect.TypeOf(def)\<close> as the typer; a nil \<^verbatim>\<open>reflect.Type\<close> stored in
  an \<^verbatim>\<open>interface{}\<close> would be the nil interface, which is no typer.
\<close>

definition NewAuto :: "string \<Rightarrow> value \<Rightarrow> Mode \<Rightarrow> string \<Rightarrow> Key option \<times> err option" where
  "NewAuto nm def m ds =
     (if def = VNil then (None, Some ErrMissingValue)
      else
        (Some \<lparr>name = nm, desc = ds, mode = m,
               typer = (case TypeOf def of None \<Rightarrow> OtherD | Some t \<Rightarrow> TypeD t),
               val = def\<rparr>, None))"

text \<open>
  The operations on an environment give the error, the Key and the environment after
  the call.
\<close>

definition Acquire ::
  "implements \<Rightarrow> Key \<Rightarrow> Executer \<Rightarrow> (err option \<times> Key \<times> Executer) result" where
  "Acquire impl k e =
     (if mode k AND Read = 0 then Returned (None, k, e)
      else if \<not> Executer_Has e (name k) then
        (if mode k AND Required \<noteq> 0 then Returned (Some (RequiredError (name k)), k, e)
         else Returned (None, k, e))
      else
        (case Executer_Get e (name k) of
           (v, err) \<Rightarrow>
             (case Key_Set impl k v of
                Panicked m \<Rightarrow> Panicked m
              | Returned (err', k') \<Rightarrow> Returned (err', k', e))))"

definition Apply :: "Key \<Rightarrow> Executer \<Rightarrow> err option \<times> Key \<times> Executer" where
  "Apply k e =
     (if mode k AND Write = 0 then (None, k, e)
      else if \<not> Executer_Has e (name k) then
        (case Executer_Set e (name k) (val k) of (err, e') \<Rightarrow> (err, k, e'))
      else (None, k, e))"

definition ApplyOrNil :: "Key \<Rightarrow> Executer \<Rightarrow> err option \<times> Key \<times> Executer" where
  "ApplyOrNil k e =
     (if mode k AND Write = 0 then
        (case Executer_Set e (name k) VNil of (err, e') \<Rightarrow> (err, k, e'))
      else if \<not> Executer_Has e (name k) then
        (case Executer_Set e (name k) (val k) of (err, e') \<Rightarrow> (err, k, e'))
      else (None, k, e))"

definition Clobber :: "Key \<Rightarrow> Executer \<Rightarrow> err option \<times> Key \<times> Executer" where
  "Clobber k e =
     (if mode k AND Write = 0 then (None, k, e)
      else (case Executer_Set e (name k) (val k) of (err, e') \<Rightarrow> (err, k, e')))"

section \<open>The invariant of a Key\<close>

text \<open>
  The stored value of a Key conforms to its descriptor when it is nil, or checking it
  again with \<^verbatim>\<open>Check\<close> gives the same value and no error.
\<close>

definition conforms :: "implements \<Rightarrow> Key \<Rightarrow> bool" where
  "conforms impl k =
     (Get k = VNil \<or> Check impl (name k) (typer k) (Get k) = Returned (Get k, None))"

text \<open>
  A coercion rule is idempotent when it accepts every non-nil value that it returns,
  and returns it as it is. A \<^verbatim>\<open>reflect.Type\<close> descriptor coerces nothing.
\<close>

definition idempotent :: "descriptor \<Rightarrow> bool" where
  "idempotent d =
     (case d of
        TyperD s c \<Rightarrow>
          (\<forall>v v'. v \<noteq> VNil \<and> c v = Returned (v', None) \<and> v' \<noteq> VNil \<longrightarrow>
                  c v' = Returned (v', None))
      | _ \<Rightarrow> True)"

text \<open>
  The Keys that the constructors and the operations of the package give. \<^verbatim>\<open>New\<close>
  returns its Key also when it returns an error.
\<close>

inductive reachable :: "implements \<Rightarrow> Key \<Rightarrow> bool" for impl :: implements where
  by_New: "New impl nm ty def m ds = Returned (Some k, err) \<Longrightarrow> reachable impl k"
| by_NewAuto: "NewAuto nm def m ds = (Some k, err) \<Longrightarrow> reachable impl k"
| by_Set: "reachable impl k \<Longrightarrow> Key_Set impl k v = Returned (err, k') \<Longrightarrow> reachable impl k'"
| by_Acquire: "reachable impl k \<Longrightarrow> Acquire impl k e = Returned (err, k', e') \<Longrightarrow> reachable impl k'"
| by_Apply: "reachable impl k \<Longrightarrow> Apply k e = (err, k', e') \<Longrightarrow> reachable impl k'"
| by_ApplyOrNil: "reachable impl k \<Longrightarrow> ApplyOrNil k e = (err, k', e') \<Longrightarrow> reachable impl k'"
| by_Clobber: "reachable impl k \<Longrightarrow> Clobber k e = (err, k', e') \<Longrightarrow> reachable impl k'"
| by_SetMode: "reachable impl k \<Longrightarrow> reachable impl (SetMode k m)"

section \<open>Properties\<close>

text \<open>
  C9. \<^verbatim>\<open>Format\<close> is a function of its arguments. A function with the fixed parameters
  \<^verbatim>\<open>(string, []interface{})\<close> that returns only an error is printed as
  \<^verbatim>\<open>name :: string -> []{} => ()\<close>, and a function with no parameter and no result as
  \<^verbatim>\<open>name :: ()\<close>: with no parameter the \<^verbatim>\<open>" => "\<close> separator is not written.
\<close>

theorem Format_signatures:
  "Format nm (VFunc [Basic ''string'', SliceT AnyT] None [ErrorT] i) =
     Returned (nm @ '' :: string -> []{} => ()'')
   \<and> Format nm (VFunc [] None [] j) = Returned (nm @ '' :: ()'')"
  by (simp add: Format_def Format_type_def format_results_def typeName_def)

text \<open>
  C1. A host function that declares two results, \<^verbatim>\<open>(int, error)\<close>, and returns an
  integer \<open>x\<close> with an error \<open>e\<close> that is not nil, such as \<^verbatim>\<open>(0, errors.New("boom"))\<close>:
  the wrapper returns \<^verbatim>\<open>(x, nil)\<close>. The closure for two results tests \<^verbatim>\<open>vo[0]\<close> for
  being an error and never reads \<^verbatim>\<open>vo[1]\<close>, so the error of the second result is
  dropped, whatever it is.
\<close>

theorem funcReturn_pair_drops_error:
  "wrap_and_invoke impl nm (VFunc [] None [Basic ''int'', ErrorT] i)
     (\<lambda>args w. ([VInt x, VError e], w)) [] w
   = (Returned (VInt x, None), w)"
  by (simp add: wrap_and_invoke_def Func_wrap_def funcStandard_def funcReturn_def
      standard_invoke_def call_and_return_def ret_pair_def as_error_def index_def NumIn_def)

text \<open>
  C3. The function \<^verbatim>\<open>func(xs ...string)\<close>, wrapped as \<^verbatim>\<open>f\<close>. Called with
  \<^verbatim>\<open>("a", 1)\<close>, the mismatch is at index 1 and building the error evaluates \<^verbatim>\<open>t.In(1)\<close>
  on a function of one parameter: the call panics. Called with \<^verbatim>\<open>(1)\<close>, the mismatch
  is at the variadic position and the error names \<^verbatim>\<open>[]string\<close>, the type of the
  variadic parameter, where the element type is \<^verbatim>\<open>string\<close>.
\<close>

theorem funcVariadic_mismatch_In_i:
  "wrap_and_invoke impl ''f'' (VFunc [] (Some (Basic ''string'')) [] 0) call
     [VString ''a'', VInt 1] w
   = (Panicked ''runtime error: index out of range'', w)
   \<and> wrap_and_invoke impl ''f'' (VFunc [] (Some (Basic ''string'')) [] 0) call [VInt 1] w
   = (Returned (VNil, Some (FuncTypeError ''f'' (VFunc [] (Some (Basic ''string'')) [] 0)
        (VInt 1) [''[]string''])), w)"
  by (simp add: wrap_and_invoke_def Func_wrap_def funcVariadic_def funcReturn_def
      variadic_invoke_def check_variadic_def funcAccepts_def typeName_def
      index_def In_def NumIn_def)

text \<open>A loop whose body never returns runs to its end.\<close>

lemma for_loop_None:
  "(\<And>i. lo \<le> i \<Longrightarrow> i < hi \<Longrightarrow> body i = None) \<Longrightarrow> for_loop body lo hi = None"
proof (induction body lo hi rule: for_loop.induct)
  case (1 body i hi)
  show ?case
  proof (cases "i < hi")
    case True
    then have b: "body i = None" using "1.prems" by simp
    have "for_loop body (i + 1) hi = None"
      using "1.IH" [OF True b] "1.prems" by simp
    with True b show ?thesis by simp
  next
    case False
    then show ?thesis by simp
  qed
qed

text \<open>
  A wrapped variadic function called with its leading arguments only, each of them
  accepted by its parameter: no argument is checked against the element type, the host
  function is called on the arguments, and its results go through the closure of
  \<^verbatim>\<open>funcReturn\<close>.
\<close>

lemma funcVariadic_no_trailing:
  assumes wrap: "Func_wrap impl nm (VFunc ps (Some et) rs i) call = Returned invoke"
    and len: "length args = length ps"
    and acc: "\<And>j. j < length ps \<Longrightarrow> funcAccepts impl (ps ! j) (TypeOf (args ! j)) = Returned True"
  shows "\<exists>ret. funcReturn impl nm (VFunc ps (Some et) rs i) = Returned ret \<and>
           invoke args w = (case call args w of (vo, w') \<Rightarrow> (ret vo, w'))"
proof -
  let ?f = "VFunc ps (Some et) rs i" and ?t = "FuncT ps (Some et) rs"
  from wrap obtain ret where ret: "funcReturn impl nm ?f = Returned ret"
    and inv: "invoke = variadic_invoke impl nm ?f ?t ret call"
    by (auto simp: Func_wrap_def funcVariadic_def split: result.splits)
  have last_in: "NumIn ?t - 1 = int (length ps)"
    by (simp add: NumIn_def)
  have fixed: "for_loop (check_fixed impl nm ?f ?t args) 0 (int (length ps)) = None"
  proof (rule for_loop_None)
    fix j :: int
    assume "0 \<le> j" and "j < int (length ps)"
    then have n: "nat j < length ps" by simp
    with \<open>0 \<le> j\<close> len acc [OF n] show "check_fixed impl nm ?f ?t args j = None"
      by (simp add: check_fixed_def In_def index_def nth_append)
  qed
  have "for_loop (check_variadic impl nm ?f ?t (int (length ps)) args)
          (int (length ps)) (int (length args)) = None"
    using len by simp
  with fixed last_in len have "invoke args w = call_and_return ret call args w"
    by (simp add: inv variadic_invoke_def)
  with ret show ?thesis by (simp add: call_and_return_def)
qed

text \<open>
  C8. A wrapped function of fixed arity, called with an argument list whose length is
  not its number of parameters, returns the error of \<^verbatim>\<open>newParamError\<close>, whose text
  holds the signature that \<^verbatim>\<open>Format\<close> prints. The host function is not called:
  whatever it is, the result does not depend on it and the host state is the one
  before the call.
\<close>

theorem funcStandard_wrong_count:
  assumes "Func_wrap impl nm (VFunc ps None rs i) call = Returned invoke"
    and "length args \<noteq> length ps"
  shows "invoke args w =
     (Returned (VNil, Some (ErrorString
        (''Incorrect number of parameters to function '' @ nm @ ''.'' @
         [CHR 0x0A, CHR 0x0A, CHR 0x09] @ Format_type nm (FuncT ps None rs) @ ''.''))), w)"
proof -
  from assms(1) obtain ret where
    inv: "invoke = standard_invoke impl nm (VFunc ps None rs i) (FuncT ps None rs) ret call"
    by (auto simp: Func_wrap_def funcStandard_def split: result.splits)
  from assms(2) have "int (length args) \<noteq> NumIn (FuncT ps None rs)"
    by (simp add: NumIn_def)
  then show ?thesis
    by (simp add: inv standard_invoke_def newParamError_def Format_def)
qed

theorem funcStandard_wrong_count_witness:
  "Func_wrap (\<lambda>t u. False) ''f'' (VFunc [Basic ''int''] None [] 0)
      (\<lambda>args w. ([], args # w)) =
    Returned (standard_invoke (\<lambda>t u. False) ''f'' (VFunc [Basic ''int''] None [] 0)
      (FuncT [Basic ''int''] None []) ret_none (\<lambda>args w. ([], args # w)))
   \<and> length ([] :: value list) \<noteq> length [Basic ''int'']
   \<and> standard_invoke (\<lambda>t u. False) ''f'' (VFunc [Basic ''int''] None [] 0)
      (FuncT [Basic ''int''] None []) ret_none (\<lambda>args w. ([], args # w)) [] [] =
     (Returned (VNil, Some (ErrorString
        (''Incorrect number of parameters to function f.'' @
         [CHR 0x0A, CHR 0x0A, CHR 0x09] @ ''f :: int => ().''))), [])"
proof -
  have w: "Func_wrap (\<lambda>t u. False) ''f'' (VFunc [Basic ''int''] None [] 0)
      (\<lambda>args w. ([], args # w)) =
    Returned (standard_invoke (\<lambda>t u. False) ''f'' (VFunc [Basic ''int''] None [] 0)
      (FuncT [Basic ''int''] None []) ret_none (\<lambda>args w. ([], args # w)))"
    by (simp add: Func_wrap_def funcStandard_def funcReturn_def)
  have l: "length ([] :: value list) \<noteq> length [Basic ''int'']"
    by simp
  show ?thesis
    using w l funcStandard_wrong_count [OF w l, of "[]"]
    by (simp add: Format_type_def format_results_def typeName_def)
qed

subsection \<open>The environment and the sync operations\<close>

lemma Executer_Has_iff:
  "Executer_Has e n \<longleftrightarrow> \<not> funcs e n \<and> (\<exists>v. scope e n = Some v \<and> v \<noteq> VNil)"
  by (auto simp: Executer_Has_def scope_Get_def split: option.splits)

lemma Executer_Set_bound:
  "\<not> funcs e n \<Longrightarrow> Executer_Set e n v = (None, e\<lparr>scope := (scope e)(n \<mapsto> v)\<rparr>)"
  by (simp add: Executer_Set_def scope_Get_def scope_Set_def scope_Create_def
      split: option.splits)

lemma Executer_Set_func:
  "funcs e n \<Longrightarrow> Executer_Set e n v =
     (Some (ErrorString ''function with that name already exists''), e)"
  by (simp add: Executer_Set_def)

text \<open>
  C2. The coercion rule \<^verbatim>\<open>Integer\<close>, given a string, such as \<^verbatim>\<open>"five"\<close> for the Key
  \<^verbatim>\<open>retries\<close>: \<^verbatim>\<open>Check\<close> returns a \<^verbatim>\<open>*TypeError\<close> that names the rule, \<^verbatim>\<open>integer\<close>, as
  the type wanted, and the sentinel \<^verbatim>\<open>ErrCatch\<close> is not returned. Its field \<^verbatim>\<open>Got\<close> is
  the nil type and not \<^verbatim>\<open>string\<close>: \<^verbatim>\<open>typer.Coerce\<close> takes \<^verbatim>\<open>reflect.TypeOf(v)\<close> after \<open>v\<close>
  has been assigned the nil that the rule returns with \<^verbatim>\<open>ErrCatch\<close>.
\<close>

theorem Check_Integer_rejects_without_type:
  "Check impl nm Integer (VString s) = Returned (VNil, Some (KeyTypeError nm None ''integer''))"
  by (simp add: Check_def Integer_def TyperFunc_def typer_Coerce_def Integer_fn_def
      NewTypeError_def type_as_iface_def)

text \<open>
  C4. A Key whose mode has \<^verbatim>\<open>Read\<close> and \<^verbatim>\<open>Required\<close>, in an environment whose scope
  does not bind the Key's name: \<^verbatim>\<open>Acquire\<close> returns the \<^verbatim>\<open>RequiredError\<close> of that name.
  With \<^verbatim>\<open>Read\<close> and without \<^verbatim>\<open>Required\<close> it returns no error and the Key is as before.
  Without \<^verbatim>\<open>Read\<close>, in any environment, it returns no error and both the Key and the
  environment are as before. (\<^verbatim>\<open>Acquire\<close> changes the environment in no case.)
\<close>

theorem Acquire_absent:
  "(mode k AND Read \<noteq> 0 \<and> mode k AND Required \<noteq> 0 \<and> scope e (name k) = None
      \<longrightarrow> Acquire impl k e = Returned (Some (RequiredError (name k)), k, e))
   \<and> (mode k AND Read \<noteq> 0 \<and> mode k AND Required = 0 \<and> scope e (name k) = None
      \<longrightarrow> Acquire impl k e = Returned (None, k, e))
   \<and> (mode k AND Read = 0 \<longrightarrow> Acquire impl k e = Returned (None, k, e))"
  by (simp add: Acquire_def Executer_Has_iff)

theorem Acquire_absent_witness:
  "Acquire (\<lambda>t u. False)
     \<lparr>name = ''retries'', desc = [], mode = 5, typer = Integer, val = VInt 3\<rparr>
     \<lparr>scope = Map.empty, funcs = (\<lambda>n. False)\<rparr> =
   Returned (Some (RequiredError ''retries''),
     \<lparr>name = ''retries'', desc = [], mode = 5, typer = Integer, val = VInt 3\<rparr>,
     \<lparr>scope = Map.empty, funcs = (\<lambda>n. False)\<rparr>)
   \<and> Acquire (\<lambda>t u. False)
     \<lparr>name = ''retries'', desc = [], mode = 1, typer = Integer, val = VInt 3\<rparr>
     \<lparr>scope = Map.empty, funcs = (\<lambda>n. False)\<rparr> =
   Returned (None,
     \<lparr>name = ''retries'', desc = [], mode = 1, typer = Integer, val = VInt 3\<rparr>,
     \<lparr>scope = Map.empty, funcs = (\<lambda>n. False)\<rparr>)
   \<and> Acquire (\<lambda>t u. False)
     \<lparr>name = ''retries'', desc = [], mode = 2, typer = Integer, val = VInt 3\<rparr>
     \<lparr>scope = [''retries'' \<mapsto> VInt 7], funcs = (\<lambda>n. False)\<rparr> =
   Returned (None,
     \<lparr>name = ''retries'', desc = [], mode = 2, typer = Integer, val = VInt 3\<rparr>,
     \<lparr>scope = [''retries'' \<mapsto> VInt 7], funcs = (\<lambda>n. False)\<rparr>)"
proof -
  have m5: "(5::int) AND Read \<noteq> 0 \<and> (5::int) AND Required \<noteq> 0"
    by (simp add: Read_def Required_def)
  have m1: "(1::int) AND Read \<noteq> 0 \<and> (1::int) AND Required = 0"
    by (simp add: Read_def Required_def)
  have m2: "(2::int) AND Read = 0"
    by (simp add: Read_def)
  show ?thesis
    using m5 m1 m2
      Acquire_absent [of "\<lparr>name = ''retries'', desc = [], mode = 5, typer = Integer, val = VInt 3\<rparr>"
        "\<lparr>scope = Map.empty, funcs = (\<lambda>n. False)\<rparr>" "\<lambda>t u. False"]
      Acquire_absent [of "\<lparr>name = ''retries'', desc = [], mode = 1, typer = Integer, val = VInt 3\<rparr>"
        "\<lparr>scope = Map.empty, funcs = (\<lambda>n. False)\<rparr>" "\<lambda>t u. False"]
      Acquire_absent [of "\<lparr>name = ''retries'', desc = [], mode = 2, typer = Integer, val = VInt 3\<rparr>"
        "\<lparr>scope = [''retries'' \<mapsto> VInt 7], funcs = (\<lambda>n. False)\<rparr>" "\<lambda>t u. False"]
    by simp
qed

text \<open>
  C5, as stated, fails. \<^verbatim>\<open>Apply\<close> asks \<^verbatim>\<open>Has\<close>, which is false for a name bound to nil:
  a Key with \<^verbatim>\<open>Write\<close> and the value 3 overwrites the binding of its name to nil. And
  \<^verbatim>\<open>Clobber\<close> writes through \<^verbatim>\<open>Executer.Set\<close>, which refuses a name registered as a
  function: the binding stays and the error is returned.
\<close>

theorem Apply_overwrites_nil_binding:
  "scope (snd (snd (Apply
      \<lparr>name = ''retries'', desc = [], mode = 2, typer = TypeD (Basic ''int''), val = VInt 3\<rparr>
      \<lparr>scope = [''retries'' \<mapsto> VNil], funcs = (\<lambda>n. False)\<rparr>))) ''retries'' = Some (VInt 3)
   \<and> Clobber
      \<lparr>name = ''print'', desc = [], mode = 2, typer = TypeD (Basic ''int''), val = VInt 3\<rparr>
      \<lparr>scope = [''print'' \<mapsto> VFunc [] (Some AnyT) [] 0], funcs = (\<lambda>n. n = ''print'')\<rparr> =
     (Some (ErrorString ''function with that name already exists''),
      \<lparr>name = ''print'', desc = [], mode = 2, typer = TypeD (Basic ''int''), val = VInt 3\<rparr>,
      \<lparr>scope = [''print'' \<mapsto> VFunc [] (Some AnyT) [] 0], funcs = (\<lambda>n. n = ''print'')\<rparr>)"
  by (simp add: Apply_def Clobber_def Write_def Executer_Has_iff Executer_Set_bound
      Executer_Set_func)

text \<open>
  C5, as amended. For a Key with \<^verbatim>\<open>Write\<close>: where its name is bound to a value that is
  not nil, \<^verbatim>\<open>Apply\<close> leaves the Key and the environment as they are; where its name is
  bound and not registered as a function, \<^verbatim>\<open>Clobber\<close> returns no error and binds the
  name to the Key's value. For a Key without \<^verbatim>\<open>Write\<close>, \<^verbatim>\<open>Apply\<close> and \<^verbatim>\<open>Clobber\<close> return
  no error and leave the environment as it is.
\<close>

theorem Apply_Clobber_binding:
  "(mode k AND Write \<noteq> 0 \<and> scope e (name k) = Some v \<and> v \<noteq> VNil
      \<longrightarrow> snd (Apply k e) = (k, e))
   \<and> (mode k AND Write \<noteq> 0 \<and> scope e (name k) = Some v \<and> \<not> funcs e (name k)
      \<longrightarrow> Clobber k e = (None, k, e\<lparr>scope := (scope e)(name k \<mapsto> val k)\<rparr>))
   \<and> (mode k AND Write = 0 \<longrightarrow> Apply k e = (None, k, e) \<and> Clobber k e = (None, k, e))"
  by (auto simp: Apply_def Clobber_def Executer_Has_iff Executer_Set_bound Executer_Set_func)

theorem Apply_Clobber_binding_witness:
  "mode \<lparr>name = ''retries'', desc = [], mode = 2, typer = Integer, val = VInt 3\<rparr> AND Write \<noteq> 0
   \<and> scope \<lparr>scope = [''retries'' \<mapsto> VInt 7], funcs = (\<lambda>n. False)\<rparr> ''retries'' = Some (VInt 7)
   \<and> VInt 7 \<noteq> VNil
   \<and> snd (Apply \<lparr>name = ''retries'', desc = [], mode = 2, typer = Integer, val = VInt 3\<rparr>
        \<lparr>scope = [''retries'' \<mapsto> VInt 7], funcs = (\<lambda>n. False)\<rparr>) =
      (\<lparr>name = ''retries'', desc = [], mode = 2, typer = Integer, val = VInt 3\<rparr>,
        \<lparr>scope = [''retries'' \<mapsto> VInt 7], funcs = (\<lambda>n. False)\<rparr>)
   \<and> Clobber \<lparr>name = ''retries'', desc = [], mode = 2, typer = Integer, val = VInt 3\<rparr>
        \<lparr>scope = [''retries'' \<mapsto> VInt 7], funcs = (\<lambda>n. False)\<rparr> =
      (None, \<lparr>name = ''retries'', desc = [], mode = 2, typer = Integer, val = VInt 3\<rparr>,
        \<lparr>scope = [''retries'' \<mapsto> VInt 3], funcs = (\<lambda>n. False)\<rparr>)
   \<and> mode \<lparr>name = ''retries'', desc = [], mode = 1, typer = Integer, val = VInt 3\<rparr> AND Write = 0
   \<and> Apply \<lparr>name = ''retries'', desc = [], mode = 1, typer = Integer, val = VInt 3\<rparr>
        \<lparr>scope = Map.empty, funcs = (\<lambda>n. False)\<rparr> =
      (None, \<lparr>name = ''retries'', desc = [], mode = 1, typer = Integer, val = VInt 3\<rparr>,
        \<lparr>scope = Map.empty, funcs = (\<lambda>n. False)\<rparr>)
   \<and> Clobber \<lparr>name = ''retries'', desc = [], mode = 1, typer = Integer, val = VInt 3\<rparr>
        \<lparr>scope = Map.empty, funcs = (\<lambda>n. False)\<rparr> =
      (None, \<lparr>name = ''retries'', desc = [], mode = 1, typer = Integer, val = VInt 3\<rparr>,
        \<lparr>scope = Map.empty, funcs = (\<lambda>n. False)\<rparr>)"
proof -
  have w: "(2::int) AND Write \<noteq> 0" and r: "(1::int) AND Write = 0"
    by (simp_all add: Write_def)
  show ?thesis
    using w r
      Apply_Clobber_binding [of
        "\<lparr>name = ''retries'', desc = [], mode = 2, typer = Integer, val = VInt 3\<rparr>"
        "\<lparr>scope = [''retries'' \<mapsto> VInt 7], funcs = (\<lambda>n. False)\<rparr>" "VInt 7"]
      Apply_Clobber_binding [of
        "\<lparr>name = ''retries'', desc = [], mode = 1, typer = Integer, val = VInt 3\<rparr>"
        "\<lparr>scope = Map.empty, funcs = (\<lambda>n. False)\<rparr>" "VInt 7"]
    by simp
qed

text \<open>
  C6. \<^verbatim>\<open>Set(nil)\<close> returns no error, whatever the Key, and \<^verbatim>\<open>Get\<close> of the Key after it
  is nil. For a value that is not nil and for which \<^verbatim>\<open>Check\<close> returns an error, \<^verbatim>\<open>Set\<close>
  returns that error and the Key is the one before the call, in all its fields.
\<close>

theorem Key_Set_nil_and_refusal:
  "Key_Set impl k VNil = Returned (None, k\<lparr>val := VNil\<rparr>)
   \<and> Get (k\<lparr>val := VNil\<rparr>) = VNil
   \<and> (v \<noteq> VNil \<and> Check impl (name k) (typer k) v = Returned (v', Some e)
        \<longrightarrow> Key_Set impl k v = Returned (Some e, k))"
  by (simp add: Key_Set_def Get_def)

theorem Key_Set_nil_and_refusal_witness:
  "Key_Set (\<lambda>t u. False)
      \<lparr>name = ''retries'', desc = [], mode = 3, typer = Integer, val = VInt 3\<rparr> VNil =
     Returned (None, \<lparr>name = ''retries'', desc = [], mode = 3, typer = Integer, val = VNil\<rparr>)
   \<and> VString ''five'' \<noteq> VNil
   \<and> Check (\<lambda>t u. False) ''retries'' Integer (VString ''five'') =
       Returned (VNil, Some (KeyTypeError ''retries'' None ''integer''))
   \<and> Key_Set (\<lambda>t u. False)
      \<lparr>name = ''retries'', desc = [], mode = 3, typer = Integer, val = VInt 3\<rparr>
      (VString ''five'') =
     Returned (Some (KeyTypeError ''retries'' None ''integer''),
       \<lparr>name = ''retries'', desc = [], mode = 3, typer = Integer, val = VInt 3\<rparr>)"
proof -
  have c: "Check (\<lambda>t u. False) ''retries'' Integer (VString ''five'') =
       Returned (VNil, Some (KeyTypeError ''retries'' None ''integer''))"
    by (simp add: Check_def Integer_def TyperFunc_def typer_Coerce_def Integer_fn_def
        NewTypeError_def type_as_iface_def)
  show ?thesis
    using c Key_Set_nil_and_refusal [of "\<lambda>t u. False"
        "\<lparr>name = ''retries'', desc = [], mode = 3, typer = Integer, val = VInt 3\<rparr>"
        "VString ''five''" VNil "KeyTypeError ''retries'' None ''integer''"]
    by simp
qed

text \<open>
  C10, as stated, fails for a name registered as a function, which \<^verbatim>\<open>Executer.Set\<close>
  refuses to bind. \<^verbatim>\<open>ApplyOrNil\<close> of a Key without \<^verbatim>\<open>Write\<close> whose name is a function's
  returns the error and binds nothing to nil; and where a function's name is bound to
  nil, \<^verbatim>\<open>Apply\<close> of a Key with \<^verbatim>\<open>Write\<close> returns the error and the binding to nil stays.
\<close>

theorem ApplyOrNil_function_name_refused:
  "ApplyOrNil
      \<lparr>name = ''print'', desc = [], mode = 1, typer = TypeD (Basic ''int''), val = VInt 3\<rparr>
      \<lparr>scope = [''print'' \<mapsto> VFunc [] (Some AnyT) [] 0], funcs = (\<lambda>n. n = ''print'')\<rparr> =
     (Some (ErrorString ''function with that name already exists''),
      \<lparr>name = ''print'', desc = [], mode = 1, typer = TypeD (Basic ''int''), val = VInt 3\<rparr>,
      \<lparr>scope = [''print'' \<mapsto> VFunc [] (Some AnyT) [] 0], funcs = (\<lambda>n. n = ''print'')\<rparr>)
   \<and> Apply
      \<lparr>name = ''print'', desc = [], mode = 2, typer = TypeD (Basic ''int''), val = VInt 3\<rparr>
      \<lparr>scope = [''print'' \<mapsto> VNil], funcs = (\<lambda>n. n = ''print'')\<rparr> =
     (Some (ErrorString ''function with that name already exists''),
      \<lparr>name = ''print'', desc = [], mode = 2, typer = TypeD (Basic ''int''), val = VInt 3\<rparr>,
      \<lparr>scope = [''print'' \<mapsto> VNil], funcs = (\<lambda>n. n = ''print'')\<rparr>)"
  by (simp add: ApplyOrNil_def Apply_def Read_def Write_def Executer_Has_iff Executer_Set_func)

text \<open>
  C10, as amended. \<^verbatim>\<open>Has(name)\<close> is true exactly when the name is not registered as a
  function, the scope binds it, and the value bound is not nil; so a name bound to nil
  is reported absent. \<^verbatim>\<open>ApplyOrNil\<close> of a Key without \<^verbatim>\<open>Write\<close> whose name is not
  registered as a function binds the name to nil. Where a name is bound to nil,
  \<^verbatim>\<open>Apply\<close> of a Key of that name with \<^verbatim>\<open>Write\<close>, the name not being registered as a
  function, binds it to the Key's value; and \<^verbatim>\<open>Acquire\<close> of a Key of that name with
  \<^verbatim>\<open>Required\<close> does what it does where the name is not bound: it returns the
  \<^verbatim>\<open>RequiredError\<close> when the mode has \<^verbatim>\<open>Read\<close> (and no error when it has not), and leaves
  the Key and the environment as they are.
\<close>

theorem Has_nil_binding:
  "(Executer_Has e n \<longleftrightarrow> \<not> funcs e n \<and> (\<exists>v. scope e n = Some v \<and> v \<noteq> VNil))
   \<and> (scope e n = Some VNil \<longrightarrow> \<not> Executer_Has e n)
   \<and> (mode k AND Write = 0 \<and> \<not> funcs e (name k) \<longrightarrow>
        ApplyOrNil k e = (None, k, e\<lparr>scope := (scope e)(name k \<mapsto> VNil)\<rparr>))
   \<and> (scope e (name k) = Some VNil \<and> \<not> funcs e (name k) \<and> mode k AND Write \<noteq> 0 \<longrightarrow>
        Apply k e = (None, k, e\<lparr>scope := (scope e)(name k \<mapsto> val k)\<rparr>))
   \<and> ((scope e (name k) = Some VNil \<or> scope e (name k) = None) \<and> mode k AND Required \<noteq> 0
        \<longrightarrow> Acquire impl k e =
          Returned (if mode k AND Read = 0 then None else Some (RequiredError (name k)), k, e))"
  by (auto simp: Executer_Has_iff ApplyOrNil_def Apply_def Acquire_def Executer_Set_bound)

theorem Has_nil_binding_witness:
  "mode \<lparr>name = ''retries'', desc = [], mode = 1, typer = Integer, val = VInt 3\<rparr> AND Write = 0
   \<and> ApplyOrNil \<lparr>name = ''retries'', desc = [], mode = 1, typer = Integer, val = VInt 3\<rparr>
        \<lparr>scope = Map.empty, funcs = (\<lambda>n. False)\<rparr> =
      (None, \<lparr>name = ''retries'', desc = [], mode = 1, typer = Integer, val = VInt 3\<rparr>,
        \<lparr>scope = [''retries'' \<mapsto> VNil], funcs = (\<lambda>n. False)\<rparr>)
   \<and> scope \<lparr>scope = [''retries'' \<mapsto> VNil], funcs = (\<lambda>n. False)\<rparr> ''retries'' = Some VNil
   \<and> \<not> Executer_Has \<lparr>scope = [''retries'' \<mapsto> VNil], funcs = (\<lambda>n. False)\<rparr> ''retries''
   \<and> mode \<lparr>name = ''retries'', desc = [], mode = 2, typer = Integer, val = VInt 3\<rparr> AND Write \<noteq> 0
   \<and> Apply \<lparr>name = ''retries'', desc = [], mode = 2, typer = Integer, val = VInt 3\<rparr>
        \<lparr>scope = [''retries'' \<mapsto> VNil], funcs = (\<lambda>n. False)\<rparr> =
      (None, \<lparr>name = ''retries'', desc = [], mode = 2, typer = Integer, val = VInt 3\<rparr>,
        \<lparr>scope = [''retries'' \<mapsto> VInt 3], funcs = (\<lambda>n. False)\<rparr>)
   \<and> mode \<lparr>name = ''retries'', desc = [], mode = 5, typer = Integer, val = VInt 3\<rparr> AND Required \<noteq> 0
   \<and> Acquire (\<lambda>t u. False)
        \<lparr>name = ''retries'', desc = [], mode = 5, typer = Integer, val = VInt 3\<rparr>
        \<lparr>scope = [''retries'' \<mapsto> VNil], funcs = (\<lambda>n. False)\<rparr> =
      Returned (Some (RequiredError ''retries''),
        \<lparr>name = ''retries'', desc = [], mode = 5, typer = Integer, val = VInt 3\<rparr>,
        \<lparr>scope = [''retries'' \<mapsto> VNil], funcs = (\<lambda>n. False)\<rparr>)
   \<and> Acquire (\<lambda>t u. False)
        \<lparr>name = ''retries'', desc = [], mode = 5, typer = Integer, val = VInt 3\<rparr>
        \<lparr>scope = Map.empty, funcs = (\<lambda>n. False)\<rparr> =
      Returned (Some (RequiredError ''retries''),
        \<lparr>name = ''retries'', desc = [], mode = 5, typer = Integer, val = VInt 3\<rparr>,
        \<lparr>scope = Map.empty, funcs = (\<lambda>n. False)\<rparr>)"
proof -
  have m: "(1::int) AND Write = 0" "(2::int) AND Write \<noteq> 0"
    "(5::int) AND Read \<noteq> 0" "(5::int) AND Required \<noteq> 0"
    by (simp_all add: Read_def Write_def Required_def)
  show ?thesis
    using m
      Has_nil_binding [of "\<lparr>scope = Map.empty, funcs = (\<lambda>n. False)\<rparr>" "''retries''"
        "\<lparr>name = ''retries'', desc = [], mode = 1, typer = Integer, val = VInt 3\<rparr>"
        "\<lambda>t u. False"]
      Has_nil_binding [of "\<lparr>scope = [''retries'' \<mapsto> VNil], funcs = (\<lambda>n. False)\<rparr>" "''retries''"
        "\<lparr>name = ''retries'', desc = [], mode = 2, typer = Integer, val = VInt 3\<rparr>"
        "\<lambda>t u. False"]
      Has_nil_binding [of "\<lparr>scope = [''retries'' \<mapsto> VNil], funcs = (\<lambda>n. False)\<rparr>" "''retries''"
        "\<lparr>name = ''retries'', desc = [], mode = 5, typer = Integer, val = VInt 3\<rparr>"
        "\<lambda>t u. False"]
      Has_nil_binding [of "\<lparr>scope = Map.empty, funcs = (\<lambda>n. False)\<rparr>" "''retries''"
        "\<lparr>name = ''retries'', desc = [], mode = 5, typer = Integer, val = VInt 3\<rparr>"
        "\<lambda>t u. False"]
    by simp
qed

subsection \<open>Keys keep conforming values\<close>

lemma TypeOf_not_Interface: "TypeOf v = Some t \<Longrightarrow> \<not> is_Interface t"
proof (cases v)
  case (VError e)
  assume "TypeOf v = Some t"
  with VError show ?thesis by (cases e) auto
qed auto

lemma Check_TypeD_value: "Check impl n (TypeD t) v = Returned (v', err) \<Longrightarrow> v' = v"
  by (auto simp: Check_def split: result.splits)

lemma Key_Set_fields:
  "Key_Set impl k v = Returned (err, k') \<Longrightarrow> name k' = name k \<and> typer k' = typer k"
  by (auto simp: Key_Set_def split: if_splits result.splits option.splits prod.splits)

lemma Key_Set_conforms:
  assumes "Key_Set impl k v = Returned (err, k')" and "conforms impl k" and "idempotent (typer k)"
  shows "conforms impl k'"
proof (cases "v = VNil")
  case True
  with assms(1) show ?thesis by (auto simp: Key_Set_def conforms_def Get_def)
next
  case False
  show ?thesis
  proof (cases err)
    case (Some e)
    with assms(1) False have "k' = k"
      by (auto simp: Key_Set_def split: result.splits option.splits prod.splits)
    with assms(2) show ?thesis by simp
  next
    case None
    with assms(1) False obtain v' where
      chk: "Check impl (name k) (typer k) v = Returned (v', None)" and k': "k' = k\<lparr>val := v'\<rparr>"
      by (auto simp: Key_Set_def split: result.splits option.splits prod.splits)
    show ?thesis
    proof (cases "typer k")
      case (TypeD t)
      with chk have "v' = v" by (auto dest: Check_TypeD_value)
      with chk k' show ?thesis by (simp add: conforms_def Get_def)
    next
      case (TyperD s c)
      with chk have c: "c v = Returned (v', None)"
        by (auto simp: Check_def split: result.splits option.splits prod.splits err.splits)
      show ?thesis
      proof (cases "v' = VNil")
        case True
        with k' show ?thesis by (simp add: conforms_def Get_def)
      next
        case nn: False
        with c False assms(3) TyperD have "c v' = Returned (v', None)"
          by (auto simp: idempotent_def)
        with k' TyperD show ?thesis by (simp add: conforms_def Get_def Check_def)
      qed
    next
      case OtherD
      with chk show ?thesis by (simp add: Check_def)
    qed
  qed
qed

lemma New_conforms:
  assumes "New impl nm ty def m ds = Returned (Some k, err)" and "idempotent (typer k)"
  shows "conforms impl k"
proof -
  let ?k0 = "\<lparr>name = nm, desc = ds, mode = m, typer = ty, val = VNil\<rparr>"
  from assms(1) have s: "Key_Set impl ?k0 def = Returned (err, k)"
    by (auto simp: New_def split: if_splits result.splits prod.splits)
  then have "typer k = typer ?k0" by (auto dest: Key_Set_fields)
  with assms(2) have "idempotent (typer ?k0)" by simp
  moreover have "conforms impl ?k0" by (simp add: conforms_def Get_def)
  ultimately show ?thesis using s by (auto intro: Key_Set_conforms)
qed

lemma NewAuto_conforms:
  assumes "NewAuto nm def m ds = (Some k, err)"
  shows "conforms impl k"
proof -
  from assms have d: "def \<noteq> VNil" by (auto simp: NewAuto_def split: if_splits)
  then obtain t where t: "TypeOf def = Some t" by (cases "def") auto
  with assms d have k: "k = \<lparr>name = nm, desc = ds, mode = m, typer = TypeD t, val = def\<rparr>"
    by (auto simp: NewAuto_def)
  from t have "\<not> is_Interface t" by (rule TypeOf_not_Interface)
  with t k show ?thesis by (simp add: conforms_def Get_def Check_def chkType_def)
qed

lemma Acquire_Key:
  "Acquire impl k e = Returned (err, k', e') \<Longrightarrow>
   k' = k \<or> (\<exists>v err'. Key_Set impl k v = Returned (err', k'))"
  by (auto simp: Acquire_def split: if_splits result.splits prod.splits)

lemma Apply_Key: "Apply k e = (err, k', e') \<Longrightarrow> k' = k"
  by (auto simp: Apply_def split: if_splits prod.splits)

lemma ApplyOrNil_Key: "ApplyOrNil k e = (err, k', e') \<Longrightarrow> k' = k"
  by (auto simp: ApplyOrNil_def split: if_splits prod.splits)

lemma Clobber_Key: "Clobber k e = (err, k', e') \<Longrightarrow> k' = k"
  by (auto simp: Clobber_def split: if_splits prod.splits)

lemma SetMode_conforms: "conforms impl (SetMode k m) = conforms impl k"
  by (simp add: conforms_def SetMode_def Get_def)

text \<open>
  C7, as amended. Every Key that the constructors \<^verbatim>\<open>New\<close> and \<^verbatim>\<open>NewAuto\<close> and the
  operations \<^verbatim>\<open>Set\<close>, \<^verbatim>\<open>Acquire\<close>, \<^verbatim>\<open>Apply\<close>, \<^verbatim>\<open>ApplyOrNil\<close>, \<^verbatim>\<open>Clobber\<close> and \<^verbatim>\<open>SetMode\<close> give,
  and whose descriptor is a \<^verbatim>\<open>reflect.Type\<close> or an idempotent coercion rule, holds nil
  or a value that \<^verbatim>\<open>Check\<close> accepts again and returns unchanged.
\<close>

theorem reachable_conforms:
  "reachable impl k \<Longrightarrow> idempotent (typer k) \<Longrightarrow> conforms impl k"
proof (induction rule: reachable.induct)
  case (by_New nm ty "def" m ds k err)
  then show ?case by (auto intro: New_conforms)
next
  case (by_NewAuto nm "def" m ds k err)
  then show ?case by (auto intro: NewAuto_conforms)
next
  case (by_Set k v err k')
  then show ?case using Key_Set_fields [of impl k v err k'] by (auto intro: Key_Set_conforms)
next
  case (by_Acquire k e err k' e')
  from by_Acquire.hyps(2) consider "k' = k" | v err' where "Key_Set impl k v = Returned (err', k')"
    by (auto dest: Acquire_Key)
  then show ?case
  proof cases
    case 1
    with by_Acquire show ?thesis by simp
  next
    case 2
    with by_Acquire show ?thesis
      using Key_Set_fields [of impl k v err' k'] by (auto intro: Key_Set_conforms)
  qed
next
  case (by_Apply k e err k' e')
  then show ?case by (auto dest: Apply_Key)
next
  case (by_ApplyOrNil k e err k' e')
  then show ?case by (auto dest: ApplyOrNil_Key)
next
  case (by_Clobber k e err k' e')
  then show ?case by (auto dest: Clobber_Key)
next
  case (by_SetMode k m)
  then show ?case by (simp add: SetMode_conforms) (simp add: SetMode_def)
qed

text \<open>The coercion rules of the package are idempotent.\<close>

lemma Integer_idempotent: "idempotent Integer"
  unfolding idempotent_def Integer_def TyperFunc_def
proof (simp, intro allI impI)
  fix v v'
  assume "v \<noteq> VNil \<and> typer_Coerce ''integer'' Integer_fn v = Returned (v', None) \<and> v' \<noteq> VNil"
  then show "typer_Coerce ''integer'' Integer_fn v' = Returned (v', None)"
    by (cases v) (auto simp: typer_Coerce_def Integer_fn_def NewTypeError_def type_as_iface_def)
qed

lemma Float_idempotent: "idempotent Float"
  unfolding idempotent_def Float_def TyperFunc_def
proof (simp, intro allI impI)
  fix v v'
  assume "v \<noteq> VNil \<and> typer_Coerce ''float'' Float_fn v = Returned (v', None) \<and> v' \<noteq> VNil"
  then show "typer_Coerce ''float'' Float_fn v' = Returned (v', None)"
    by (cases v) (auto simp: typer_Coerce_def Float_fn_def NewTypeError_def type_as_iface_def)
qed

theorem reachable_conforms_witness:
  "reachable (\<lambda>t u. False)
      \<lparr>name = ''retries'', desc = [], mode = 3, typer = Integer, val = VInt 5\<rparr>
   \<and> idempotent (typer \<lparr>name = ''retries'', desc = [], mode = 3, typer = Integer, val = VInt 5\<rparr>)
   \<and> conforms (\<lambda>t u. False)
      \<lparr>name = ''retries'', desc = [], mode = 3, typer = Integer, val = VInt 5\<rparr>"
proof -
  let ?impl = "\<lambda>(t::gotype) (u::gotype). False"
  let ?k3 = "\<lparr>name = ''retries'', desc = [], mode = 3, typer = Integer, val = VInt 3\<rparr>"
  let ?k5 = "\<lparr>name = ''retries'', desc = [], mode = 3, typer = Integer, val = VInt 5\<rparr>"
  let ?e = "\<lparr>scope = [''retries'' \<mapsto> VInt32 5], funcs = (\<lambda>n. False)\<rparr>"
  have "New ?impl ''retries'' Integer (VInt 3) 3 [] = Returned (Some ?k3, None)"
    by (simp add: New_def Key_Set_def Check_def Integer_def TyperFunc_def typer_Coerce_def
        Integer_fn_def)
  then have r3: "reachable ?impl ?k3"
    by (rule reachable.by_New)
  have "Acquire ?impl ?k3 ?e = Returned (None, ?k5, ?e)"
    by (simp add: Acquire_def Read_def Executer_Has_def Executer_Get_def scope_Get_def
        Key_Set_def Check_def Integer_def TyperFunc_def typer_Coerce_def Integer_fn_def)
  with r3 have r5: "reachable ?impl ?k5"
    by (rule reachable.by_Acquire)
  have i: "idempotent (typer ?k5)"
    by (simp add: Integer_idempotent)
  show ?thesis
    using r5 i reachable_conforms [OF r5 i] by simp
qed

text \<open>
  C7, as stated, fails: \<^verbatim>\<open>New\<close> takes any \<^verbatim>\<open>Typer\<close>, and nothing makes a \<^verbatim>\<open>Typer\<close> accept
  what it returns. The rule \<^verbatim>\<open>flag\<close> turns a \<^verbatim>\<open>bool\<close> into an \<^verbatim>\<open>int\<close> and refuses every
  other type. \<^verbatim>\<open>New\<close> with the default \<^verbatim>\<open>true\<close> gives a Key that holds the \<^verbatim>\<open>int\<close> 1, and
  \<^verbatim>\<open>Check\<close> of that value against the Key's descriptor returns an error.
\<close>

theorem New_custom_typer_not_conforming:
  "New (\<lambda>t u. False) ''verbose''
      (TyperFunc ''flag'' (\<lambda>v. case v of VBool b \<Rightarrow> (VInt (if b then 1 else 0), None)
                                   | _ \<Rightarrow> (VNil, Some ErrCatch)))
      (VBool True) 1 [] =
     Returned (Some \<lparr>name = ''verbose'', desc = [], mode = 1,
        typer = TyperFunc ''flag'' (\<lambda>v. case v of VBool b \<Rightarrow> (VInt (if b then 1 else 0), None)
                                   | _ \<Rightarrow> (VNil, Some ErrCatch)),
        val = VInt 1\<rparr>, None)
   \<and> Check (\<lambda>t u. False) ''verbose''
      (TyperFunc ''flag'' (\<lambda>v. case v of VBool b \<Rightarrow> (VInt (if b then 1 else 0), None)
                                   | _ \<Rightarrow> (VNil, Some ErrCatch)))
      (VInt 1) =
     Returned (VNil, Some (KeyTypeError ''verbose'' None ''flag''))"
  by (simp add: New_def Key_Set_def Check_def TyperFunc_def typer_Coerce_def
      NewTypeError_def type_as_iface_def)

end
